theory Spec2Isabelle
  imports Main
begin

section \<open>JavaScript values as the client code observes them\<close>

text \<open>
  A JavaScript string is a sequence of code units; it is modelled as a \<^typ>\<open>string\<close>,
  one \<^typ>\<open>char\<close> per code unit, which covers the code units below 256. The classes
  the code tests for (digits, letters, the punctuation set) lie in the ASCII range, and
  the white space class is listed as far as it lies below 256.
\<close>

definition is_digit :: "char \<Rightarrow> bool" where
  \<comment> \<open>the class \<open>\d\<close>: the ten ASCII digits\<close>
  "is_digit c = ((48::nat) \<le> of_char c \<and> of_char c \<le> (57::nat))"

definition is_lower :: "char \<Rightarrow> bool" where
  \<comment> \<open>the class \<open>[a-z]\<close>\<close>
  "is_lower c = ((97::nat) \<le> of_char c \<and> of_char c \<le> (122::nat))"

definition is_upper :: "char \<Rightarrow> bool" where
  \<comment> \<open>the class \<open>[A-Z]\<close>\<close>
  "is_upper c = ((65::nat) \<le> of_char c \<and> of_char c \<le> (90::nat))"

definition is_space :: "char \<Rightarrow> bool" where
  \<comment> \<open>the class \<open>\s\<close>, also what \<open>trim\<close> strips: TAB, LF, VT, FF, CR, SP, NBSP\<close>
  "is_space c = ((of_char c :: nat) \<in> {9, 10, 11, 12, 13, 32, 160})"

definition special_chars :: string where
  \<comment> \<open>the members of the class \<open>[!@#$%^&*(),.?":{}|<>]\<close>\<close>
  "special_chars = ''!@#$%^&*(),.?'' @ [char_of (34::nat)] @ '':{}|<>''"

definition is_special :: "char \<Rightarrow> bool" where
  "is_special c = (c \<in> set special_chars)"

definition strip_non_digits :: "string \<Rightarrow> string" where
  \<comment> \<open>\<open>s.replace(/\D/g, '')\<close>\<close>
  "strip_non_digits s = filter is_digit s"

definition slice :: "nat \<Rightarrow> nat \<Rightarrow> string \<Rightarrow> string" where
  \<comment> \<open>\<open>s.slice(i, j)\<close> for non-negative \<open>i\<close> and \<open>j\<close>\<close>
  "slice i j s = drop i (take j s)"

definition slice_from :: "nat \<Rightarrow> string \<Rightarrow> string" where
  \<comment> \<open>\<open>s.slice(i)\<close> for non-negative \<open>i\<close>\<close>
  "slice_from i s = drop i s"

definition trim :: "string \<Rightarrow> string" where
  "trim s = rev (dropWhile is_space (rev (dropWhile is_space s)))"

subsection \<open>The regular expressions of the source\<close>

text \<open>
  Every anchored pattern of the source is a sequence of character classes, each with a
  repetition range: \<open>\d{2}\<close>, \<open>-?\<close>, \<open>[^\s@]+\<close>. An item is the class, the least and
  the greatest number of repetitions (\<open>None\<close>: unbounded). \<open>rx_test\<close> is
  \<open>/^...$/.test(s)\<close>: some split of the whole string matches the items in order.
\<close>

type_synonym rx_item = "(char \<Rightarrow> bool) \<times> nat \<times> nat option"

fun rx_test :: "rx_item list \<Rightarrow> string \<Rightarrow> bool" where
  "rx_test [] s = (s = [])"
| "rx_test ((cls, lo, hi) # items) s =
     list_ex (\<lambda>k. list_all cls (take k s) \<and> rx_test items (drop k s))
       [lo ..< Suc (case hi of None \<Rightarrow> length s | Some h \<Rightarrow> min h (length s))]"

definition rx_search :: "(char \<Rightarrow> bool) \<Rightarrow> string \<Rightarrow> bool" where
  \<comment> \<open>an unanchored one-class pattern, \<open>/[a-z]/.test(s)\<close>\<close>
  "rx_search cls s = list_ex cls s"

section \<open>Field validators (common/utils.js)\<close>

text \<open>
  The validators return objects that share the property \<open>isValid\<close>: a single rule's
  result adds a message (\<open>vmessage\<close>, the property \<open>message\<close> of the source), the
  password check a score and its feedback.
\<close>

record Validity =
  isValid :: bool

record ValidationResult = Validity +
  vmessage :: string

record PasswordResult = Validity +
  score :: nat
  feedback :: "string list"

definition emailRegex :: "rx_item list" where
  \<comment> \<open>\<open>/^[^\s@]+@[^\s@]+\.[^\s@]+$/\<close>\<close>
  "emailRegex =
     [(\<lambda>c. \<not> is_space c \<and> c \<noteq> CHR ''@'', 1, None),
      (\<lambda>c. c = CHR ''@'', 1, Some 1),
      (\<lambda>c. \<not> is_space c \<and> c \<noteq> CHR ''@'', 1, None),
      (\<lambda>c. c = CHR ''.'', 1, Some 1),
      (\<lambda>c. \<not> is_space c \<and> c \<noteq> CHR ''@'', 1, None)]"

definition isValidEmail :: "string \<Rightarrow> bool" where
  "isValidEmail email = rx_test emailRegex email"

text \<open>
  \<open>validatePassword\<close> updates one result object five times; each check is a step on
  that object: a failed check pushes its message, a passed one adds a point.
\<close>

definition pw_check :: "bool \<Rightarrow> string \<Rightarrow> PasswordResult \<Rightarrow> PasswordResult" where
  "pw_check failed msg r =
     (if failed then r\<lparr>feedback := feedback r @ [msg]\<rparr>
      else r\<lparr>score := score r + 1\<rparr>)"

definition validatePassword :: "string \<Rightarrow> PasswordResult" where
  "validatePassword password =
     (let r0 = \<lparr>isValid = False, score = 0, feedback = []\<rparr>;
          r1 = pw_check (length password < 8)
                 ''Password must be at least 8 characters long'' r0;
          r2 = pw_check (\<not> rx_search is_lower password)
                 ''Password must contain at least one lowercase letter'' r1;
          r3 = pw_check (\<not> rx_search is_upper password)
                 ''Password must contain at least one uppercase letter'' r2;
          r4 = pw_check (\<not> rx_search is_digit password)
                 ''Password must contain at least one number'' r3;
          r5 = pw_check (\<not> rx_search is_special password)
                 ''Password should contain at least one special character'' r4
      in r5\<lparr>isValid := (score r5 \<ge> 4)\<rparr>)"

definition tinRegex :: "rx_item list" where
  \<comment> \<open>\<open>/^\d{2}-?\d{7}$/\<close>\<close>
  "tinRegex =
     [(is_digit, 2, Some 2), (\<lambda>c. c = CHR ''-'', 0, Some 1), (is_digit, 7, Some 7)]"

definition validateTIN :: "string \<Rightarrow> ValidationResult" where
  "validateTIN tin =
     (if tin = [] then \<lparr>isValid = False, vmessage = ''TIN/EIN is required''\<rparr>
      else let cleanTIN = strip_non_digits tin in
        if length cleanTIN \<noteq> 9
        then \<lparr>isValid = False, vmessage = ''TIN/EIN must be 9 digits''\<rparr>
        else if \<not> rx_test tinRegex tin
        then \<lparr>isValid = False,
              vmessage = ''Please enter a valid TIN/EIN format (XX-XXXXXXX or XXXXXXXXX)''\<rparr>
        else \<lparr>isValid = True, vmessage = []\<rparr>)"

definition validateBankAccount :: "string \<Rightarrow> ValidationResult" where
  "validateBankAccount accountNumber =
     (if accountNumber = []
      then \<lparr>isValid = False, vmessage = ''Bank account number is required''\<rparr>
      else let cleanAccount = strip_non_digits accountNumber in
        if length cleanAccount < 8 \<or> length cleanAccount > 17
        then \<lparr>isValid = False, vmessage = ''Bank account number should be 8-17 digits''\<rparr>
        else if \<not> rx_test [(is_digit, 1, None)] cleanAccount
        then \<lparr>isValid = False,
              vmessage = ''Bank account number should contain only digits''\<rparr>
        else \<lparr>isValid = True, vmessage = []\<rparr>)"

definition validateRoutingNumber :: "string \<Rightarrow> ValidationResult" where
  "validateRoutingNumber routingNumber =
     (if routingNumber = []
      then \<lparr>isValid = False, vmessage = ''Routing number is required''\<rparr>
      else let cleanRouting = strip_non_digits routingNumber in
        if length cleanRouting \<noteq> 9
        then \<lparr>isValid = False, vmessage = ''Routing number must be exactly 9 digits''\<rparr>
        else \<lparr>isValid = True, vmessage = []\<rparr>)"

definition formatTIN :: "string \<Rightarrow> string" where
  "formatTIN tin =
     (let cleanTIN = strip_non_digits tin in
      if length cleanTIN = 9
      then slice 0 2 cleanTIN @ ''-'' @ slice_from 2 cleanTIN
      else tin)"

definition formatRoutingNumber :: "string \<Rightarrow> string" where
  "formatRoutingNumber routingNumber =
     (let cleanRouting = strip_non_digits routingNumber in
      if length cleanRouting = 9
      then slice 0 3 cleanRouting @ '' '' @ slice 3 6 cleanRouting @ '' ''
             @ slice_from 6 cleanRouting
      else routingNumber)"

section \<open>The request client (common/api.js)\<close>

subsection \<open>Decoded values\<close>

text \<open>
  What \<open>response.json()\<close> and \<open>response.text()\<close> hand to the client. A number is
  carried as its decimal rendering, the text \<open>String(n)\<close> gives: the client looks at a
  number's truth value and its rendering only, and zero renders as \<open>0\<close>. An object is
  the list of its own properties, each key once.
\<close>

datatype jsval =
    JNull
  | JBool bool
  | JNum string
  | JStr string
  | JArr "jsval list"
  | JObj "(string \<times> jsval) list"

text \<open>Reading a property of a decoded value: \<open>None\<close> is \<open>undefined\<close>.\<close>

fun property :: "jsval \<Rightarrow> string \<Rightarrow> jsval option" where
  "property (JObj ps) k = map_of ps k"
| "property _ k = None"

fun truthy :: "jsval option \<Rightarrow> bool" where
  "truthy None = False"
| "truthy (Some JNull) = False"
| "truthy (Some (JBool b)) = b"
| "truthy (Some (JNum n)) = (n \<noteq> ''0'')"
| "truthy (Some (JStr s)) = (s \<noteq> [])"
| "truthy (Some (JArr xs)) = True"
| "truthy (Some (JObj ps)) = True"

fun join :: "string \<Rightarrow> string list \<Rightarrow> string" where
  "join sep [] = []"
| "join sep [x] = x"
| "join sep (x # y # ys) = x @ sep @ join sep (y # ys)"

text \<open>
  The string conversion \<open>Error\<close>'s constructor applies to its argument. An array is
  its elements joined by commas, \<open>null\<close> elements as the empty text. \<open>None\<close> is the
  \<open>TypeError\<close> of an object that cannot be converted: an own property \<open>toString\<close>
  of a decoded object is never a function and hides the inherited one.
\<close>

fun to_string :: "jsval \<Rightarrow> string option" where
  "to_string JNull = Some ''null''"
| "to_string (JBool b) = Some (if b then ''true'' else ''false'')"
| "to_string (JNum n) = Some n"
| "to_string (JStr s) = Some s"
| "to_string (JArr xs) =
     (let parts = map (\<lambda>x. if x = JNull then Some [] else to_string x) xs
      in if None \<in> set parts then None else Some (join '','' (map the parts)))"
| "to_string (JObj ps) =
     (if ''toString'' \<in> set (map fst ps) then None else Some ''[object Object]'')"

text \<open>A non-negative whole number inside a template literal: its decimal digits.\<close>

function show_nat :: "nat \<Rightarrow> string" where
  "show_nat n =
     (if n < 10 then [char_of (48 + n)]
      else show_nat (n div 10) @ [char_of (48 + n mod 10)])"
  by pat_completeness auto
termination
  by (relation "measure id") auto

declare show_nat.simps [simp del]

subsection \<open>Errors\<close>

record APIError =
  message :: string
  status :: int
  data :: jsval

definition isAuthError :: "APIError \<Rightarrow> bool" where
  "isAuthError e = (status e = 401 \<or> status e = 403)"

definition isValidationError :: "APIError \<Rightarrow> bool" where
  "isValidationError e = (status e = 422 \<or> status e = 400)"

definition isServerError :: "APIError \<Rightarrow> bool" where
  "isServerError e = (status e \<ge> 500)"

text \<open>
  What a call can throw or reject with: an \<open>APIError\<close>; another error object, with
  its message text (\<open>TypeError\<close>, \<open>SyntaxError\<close>, \<open>URIError\<close>); or any other value,
  such as the abort reason of a signal handed through the options: \<open>None\<close> is
  \<open>undefined\<close>, else a plain value.
\<close>

datatype thrown =
    ThrownAPIError APIError
  | ThrownError string
  | ThrownValue "jsval option"

subsection \<open>The browser, as far as the client uses it\<close>

type_synonym headers = "string \<rightharpoonup> string"

datatype body = JSONText string | FormData "(string \<times> string) list"

text \<open>
  A response of \<open>fetch\<close>: \<open>resp_headers\<close> is \<open>response.headers.get\<close>, on lower-case
  names; \<open>json_body\<close> and \<open>text_body\<close> are what \<open>response.json()\<close> and \<open>response.text()\<close>
  settle to, \<open>Inl\<close> what they reject with.
\<close>

record response =
  status_code :: nat
  statusText :: string
  resp_headers :: headers
  json_body :: "thrown + jsval"
  text_body :: "thrown + string"

definition ok :: "response \<Rightarrow> bool" where
  \<comment> \<open>\<open>response.ok\<close>: a status in the range 200 to 299\<close>
  "ok r = (200 \<le> status_code r \<and> status_code r \<le> 299)"

text \<open>The second argument of \<open>fetch\<close>, as \<open>request\<close> builds it.\<close>

record config =
  cfg_credentials :: string
  cfg_method :: "string option"
  cfg_body :: "body option"
  cfg_headers :: headers

text \<open>
  The document and the built-in functions: \<open>meta_csrf\<close> is the element
  \<open>meta[name="csrf-token"]\<close>, \<open>None\<close> when the page has none, else its \<open>content\<close>
  attribute (\<open>Some None\<close>: the attribute is missing); \<open>decodeURIComponent\<close> returns
  \<open>Inl\<close> the message of the \<open>URIError\<close> it throws, \<open>fetch\<close> returns \<open>Inl\<close> what it
  rejects with; the three messages are the engine's texts for the \<open>TypeError\<close> of
  reading a property of \<open>null\<close>, of reading a property of \<open>undefined\<close>, and of
  converting an object that has no primitive value.
\<close>

record browser =
  meta_csrf :: "string option option"
  cookie :: string
  decodeURIComponent :: "string \<Rightarrow> string + string"
  fetch :: "string \<Rightarrow> config \<Rightarrow> thrown + response"
  null_property_message :: string
  undefined_property_message :: string
  not_primitive_message :: string

fun split :: "char \<Rightarrow> string \<Rightarrow> string list" where
  "split sep [] = [[]]"
| "split sep (c # cs) =
     (if c = sep then [] # split sep cs
      else (case split sep cs of [] \<Rightarrow> [[c]] | w # ws \<Rightarrow> (c # w) # ws))"

fun str_includes :: "string \<Rightarrow> string \<Rightarrow> bool" where
  "str_includes [] sub = (sub = [])"
| "str_includes (c # cs) sub = (take (length sub) (c # cs) = sub \<or> str_includes cs sub)"

subsection \<open>The client\<close>

record FinBotAPI =
  baseURL :: string
  defaultHeaders :: headers

definition new_FinBotAPI :: "string \<Rightarrow> FinBotAPI" where
  \<comment> \<open>the constructor\<close>
  "new_FinBotAPI base =
     \<lparr>baseURL = base, defaultHeaders = [''Content-Type'' \<mapsto> ''application/json'']\<rparr>"

text \<open>
  The loop of \<open>getCSRFToken\<close> over the cookies: the first one named \<open>csrf_token\<close>
  decides. A cookie without \<open>=\<close> leaves \<open>value\<close> undefined, which
  \<open>decodeURIComponent\<close> reads as the text \<open>undefined\<close>.
\<close>

fun csrf_cookie :: "(string \<Rightarrow> string + string) \<Rightarrow> string list \<Rightarrow> thrown + string option" where
  "csrf_cookie decode [] = Inr None"
| "csrf_cookie decode (c # cookies) =
     (case split CHR ''='' (trim c) of
        [] \<Rightarrow> csrf_cookie decode cookies
      | name # rest \<Rightarrow>
          if name = ''csrf_token''
          then (case decode (case rest of [] \<Rightarrow> ''undefined'' | v # _ \<Rightarrow> v) of
                  Inl m \<Rightarrow> Inl (ThrownError m)
                | Inr t \<Rightarrow> Inr (Some t))
          else csrf_cookie decode cookies)"

definition getCSRFToken :: "browser \<Rightarrow> thrown + string option" where
  "getCSRFToken env =
     (case meta_csrf env of
        Some content \<Rightarrow> Inr content
      | None \<Rightarrow> csrf_cookie (decodeURIComponent env) (split CHR '';'' (cookie env)))"

text \<open>
  The options of a call: its properties \<open>method\<close>, \<open>headers\<close>, \<open>body\<close> and
  \<open>credentials\<close>; an absent property is \<open>None\<close>.
\<close>

record options =
  opt_method :: "string option"
  opt_headers :: "headers option"
  opt_body :: "body option"
  opt_credentials :: "string option"

text \<open>
  \<open>request\<close> up to its \<open>try\<close>: the URL and the configuration it calls \<open>fetch\<close> with,
  or what \<open>getCSRFToken\<close> threw.
\<close>

definition request_config ::
  "browser \<Rightarrow> FinBotAPI \<Rightarrow> string \<Rightarrow> options \<Rightarrow> thrown + (string \<times> config)" where
  "request_config env api endpoint opts =
     (let url = baseURL api @ endpoint;
          merged = defaultHeaders api ++ (case opt_headers opts of None \<Rightarrow> Map.empty | Some h \<Rightarrow> h);
          with_csrf =
            (case opt_method opts of
               None \<Rightarrow> Inr merged
             | Some m \<Rightarrow>
                 if m \<noteq> [] \<and> m \<noteq> ''GET''
                 then (case getCSRFToken env of
                         Inl e \<Rightarrow> Inl e
                       | Inr None \<Rightarrow> Inr merged
                       | Inr (Some csrfToken) \<Rightarrow>
                           if csrfToken \<noteq> []
                           then Inr (merged(''X-CSRF-Token'' \<mapsto> csrfToken))
                           else Inr merged)
                 else Inr merged)
      in case with_csrf of
           Inl e \<Rightarrow> Inl e
         | Inr hs \<Rightarrow>
             Inr (url,
               \<lparr>cfg_credentials =
                  (case opt_credentials opts of None \<Rightarrow> ''same-origin'' | Some c \<Rightarrow> c),
                cfg_method = opt_method opts, cfg_body = opt_body opts, cfg_headers = hs\<rparr>))"

text \<open>The object a successful call returns.\<close>

record APIResponse =
  r_data :: jsval
  r_status :: nat
  r_headers :: headers

definition decode_body :: "response \<Rightarrow> thrown + jsval" where
  \<comment> \<open>the choice between \<open>response.json()\<close> and \<open>response.text()\<close>\<close>
  "decode_body r =
     (case resp_headers r ''content-type'' of
        None \<Rightarrow> map_sum id JStr (text_body r)
      | Some contentType \<Rightarrow>
          if contentType \<noteq> [] \<and> str_includes contentType ''application/json''
          then json_body r
          else map_sum id JStr (text_body r))"

definition http_message :: "response \<Rightarrow> string" where
  "http_message r = ''HTTP '' @ show_nat (status_code r) @ '': '' @ statusText r"

text \<open>The body of the \<open>try\<close>, given what \<open>fetch\<close> settled to.\<close>

definition request_try :: "browser \<Rightarrow> thrown + response \<Rightarrow> thrown + APIResponse" where
  "request_try env fetched =
     (case fetched of
        Inl rejected \<Rightarrow> Inl rejected
      | Inr r \<Rightarrow>
          (case decode_body r of
             Inl rejected \<Rightarrow> Inl rejected
           | Inr d \<Rightarrow>
               if \<not> ok r
               then (if d = JNull then Inl (ThrownError (null_property_message env))
                     else let arg = (if truthy (property d ''message'')
                                     then the (property d ''message'')
                                     else JStr (http_message r))
                          in case to_string arg of
                               None \<Rightarrow> Inl (ThrownError (not_primitive_message env))
                             | Some msg \<Rightarrow>
                                 Inl (ThrownAPIError
                                   \<lparr>message = msg, status = int (status_code r), data = d\<rparr>))
               else Inr \<lparr>r_data = d, r_status = status_code r,
                         r_headers = resp_headers r\<rparr>))"

text \<open>
  The \<open>catch\<close> block, given what the \<open>try\<close> threw; the result is what leaves
  \<open>request\<close>. An \<open>APIError\<close> is thrown on. Of anything else the block reads
  \<open>error.message\<close>, which itself throws when the value is \<open>null\<close> or \<open>undefined\<close>,
  and builds an \<open>APIError\<close>, whose constructor throws when the message has no string
  conversion: in both cases a \<open>TypeError\<close> leaves \<open>request\<close>.
\<close>

definition request_catch :: "browser \<Rightarrow> thrown \<Rightarrow> thrown" where
  "request_catch env error =
     (case error of
        ThrownAPIError e \<Rightarrow> ThrownAPIError e
      | ThrownError m \<Rightarrow>
          ThrownAPIError
            \<lparr>message = (if m \<noteq> [] then m else ''Network error occurred''),
             status = 0, data = JNull\<rparr>
      | ThrownValue None \<Rightarrow> ThrownError (undefined_property_message env)
      | ThrownValue (Some v) \<Rightarrow>
          if v = JNull then ThrownError (null_property_message env)
          else let arg = (if truthy (property v ''message'')
                          then the (property v ''message'')
                          else JStr ''Network error occurred'')
               in case to_string arg of
                    None \<Rightarrow> ThrownError (not_primitive_message env)
                  | Some msg \<Rightarrow>
                      ThrownAPIError \<lparr>message = msg, status = 0, data = JNull\<rparr>)"

definition request ::
  "browser \<Rightarrow> FinBotAPI \<Rightarrow> string \<Rightarrow> options \<Rightarrow> thrown + APIResponse" where
  "request env api endpoint opts =
     (case request_config env api endpoint opts of
        Inl e \<Rightarrow> Inl e
      | Inr (url, cfg) \<Rightarrow>
          (case request_try env (fetch env url cfg) of
             Inl error \<Rightarrow> Inl (request_catch env error)
           | Inr result \<Rightarrow> Inr result))"

definition upload_options :: "FinBotAPI \<Rightarrow> (string \<times> string) list \<Rightarrow> options" where
  \<comment> \<open>the options \<open>upload\<close> hands to \<open>request\<close>\<close>
  "upload_options api formData =
     (let hs = (defaultHeaders api)(''Content-Type'' := None)
      in \<lparr>opt_method = Some ''POST'', opt_headers = Some hs,
          opt_body = Some (FormData formData), opt_credentials = None\<rparr>)"

definition upload ::
  "browser \<Rightarrow> FinBotAPI \<Rightarrow> string \<Rightarrow> (string \<times> string) list \<Rightarrow> thrown + APIResponse" where
  "upload env api endpoint formData = request env api endpoint (upload_options api formData)"

section \<open>Form validation and submission\<close>

text \<open>
  A field of a form, as \<open>validateForm\<close> reads it: \<open>field_type\<close> is the property
  \<open>type\<close>, \<open>required\<close> is \<open>hasAttribute('required')\<close>, the two lengths are the
  properties \<open>minLength\<close> and \<open>maxLength\<close> (\<open>None\<close> where the element has none, as a
  \<open>select\<close>). A form is its fields in document order, the entries of its \<open>FormData\<close>
  (text values) and whether it has a submit button.
\<close>

record field =
  name :: string
  field_type :: string
  required :: bool
  minLength :: "int option"
  maxLength :: "int option"

record form =
  form_fields :: "field list"
  formData :: "(string \<times> string) list"
  submit_button :: bool

text \<open>
  An object used as a dictionary, \<open>errors\<close> in \<open>validateForm\<close>: the list of its own
  properties. Assigning to the name \<open>__proto__\<close> runs the setter every plain object
  inherits, which replaces the prototype and adds no own property.
\<close>

fun put :: "(string \<times> 'a) list \<Rightarrow> string \<Rightarrow> 'a \<Rightarrow> (string \<times> 'a) list" where
  "put [] k v = [(k, v)]"
| "put ((k', v') # ps) k v = (if k' = k then (k, v) # ps else (k', v') # put ps k v)"

definition assign :: "(string \<times> 'a) list \<Rightarrow> string \<Rightarrow> 'a \<Rightarrow> (string \<times> 'a) list" where
  "assign obj k v = (if k = ''__proto__'' then obj else put obj k v)"

definition non_empty :: "string option \<Rightarrow> bool" where
  \<comment> \<open>the truth value of \<open>formData.get(...)\<close>: neither \<open>null\<close> nor the empty string\<close>
  "non_empty value = (case value of None \<Rightarrow> False | Some v \<Rightarrow> v \<noteq> [])"

definition field_errors :: "field \<Rightarrow> string option \<Rightarrow> string list" where
  \<comment> \<open>\<open>fieldErrors\<close> after the five checks of one field\<close>
  "field_errors f value =
     (let v = (case value of None \<Rightarrow> [] | Some x \<Rightarrow> x);
          e1 = (if required f \<and> (\<not> non_empty value \<or> trim v = [])
                then [name f @ '' is required''] else []);
          e2 = (if field_type f = ''email'' \<and> non_empty value \<and> \<not> isValidEmail v
                then [''Please enter a valid email address''] else []);
          e3 = (if field_type f = ''password'' \<and> non_empty value
                then (let passwordValidation = validatePassword v
                      in if \<not> isValid passwordValidation
                         then feedback passwordValidation else [])
                else []);
          e4 = (case minLength f of
                  None \<Rightarrow> []
                | Some n \<Rightarrow>
                    if n \<noteq> 0 \<and> n > 0 \<and> non_empty value \<and> int (length v) < n
                    then [name f @ '' must be at least '' @ show_nat (nat n) @ '' characters'']
                    else []);
          e5 = (case maxLength f of
                  None \<Rightarrow> []
                | Some n \<Rightarrow>
                    if n \<noteq> 0 \<and> n > 0 \<and> non_empty value \<and> int (length v) > n
                    then [name f @ '' must be no more than '' @ show_nat (nat n)
                            @ '' characters'']
                    else [])
      in e1 @ e2 @ e3 @ e4 @ e5)"

record FormReport = Validity +
  errors :: "(string \<times> string list) list"

definition validate_field ::
  "(string \<times> string) list \<Rightarrow> field \<Rightarrow> (string \<times> string list) list
     \<Rightarrow> (string \<times> string list) list" where
  \<comment> \<open>the callback of \<open>fields.forEach\<close>, on the object \<open>errors\<close>\<close>
  "validate_field fd f errs =
     (let fieldErrors = field_errors f (map_of fd (name f))
      in if length fieldErrors > 0 then assign errs (name f) fieldErrors else errs)"

definition validateForm :: "form \<Rightarrow> FormReport" where
  "validateForm frm =
     (let errs = fold (validate_field (formData frm)) (form_fields frm) []
      in \<lparr>isValid = (length (map fst errs) = 0), errors = errs\<rparr>)"

text \<open>
  What the submit handler does, in order. \<open>Uncaught\<close> is the rejection of the handler's
  promise by an error nothing catches.
\<close>

datatype effect =
    PreventDefault
  | DisplayFormErrors "(string \<times> string list) list"
  | ShowLoading
  | SubmitForm
  | Navigate string
  | Reload
  | DisplayServerErrors jsval
  | HandleAPIError APIError
  | HideLoading
  | Uncaught

definition after_submit :: "thrown + APIResponse \<Rightarrow> effect list" where
  \<comment> \<open>the \<open>try\<close>, \<open>catch\<close> and \<open>finally\<close> of the handler, given what \<open>submitForm\<close> settled to\<close>
  "after_submit settled =
     (case settled of
        Inr resp \<Rightarrow>
          if r_data resp = JNull then [HideLoading, Uncaught]
          else if truthy (property (r_data resp) ''redirect'')
          then (case to_string (the (property (r_data resp) ''redirect'')) of
                  None \<Rightarrow> [HideLoading, Uncaught]
                | Some target \<Rightarrow> [Navigate target, HideLoading])
          else [Reload, HideLoading]
      | Inl (ThrownError m) \<Rightarrow> [HideLoading, Uncaught]
      | Inl (ThrownValue v) \<Rightarrow> [HideLoading, Uncaught]
      | Inl (ThrownAPIError e) \<Rightarrow>
          if isValidationError e
             \<and> truthy (if data e = JNull then None else property (data e) ''errors'')
          then [DisplayServerErrors (the (property (data e) ''errors'')), HideLoading]
          else [HandleAPIError e, HideLoading])"

definition handleAuthSubmit :: "(form \<Rightarrow> thrown + APIResponse) \<Rightarrow> form \<Rightarrow> effect list" where
  \<comment> \<open>the first argument is what the call \<open>submitForm(form, { json: true })\<close> settles to\<close>
  "handleAuthSubmit submitForm frm =
     PreventDefault #
     (let validation = validateForm frm
      in if \<not> isValid validation then [DisplayFormErrors (errors validation)]
         else if \<not> submit_button frm then [Uncaught]
         else ShowLoading # SubmitForm # after_submit (submitForm frm))"

section \<open>The specification's wording of the rules\<close>

text \<open>
  The exact pattern of a tax identifier, read from left to right: two digits, then one
  dash or none, then seven digits, and nothing else.
\<close>

definition tin_pattern :: "string \<Rightarrow> bool" where
  "tin_pattern s =
     (let two = take 2 s; rest = drop 2 s;
          seven = (case rest of [] \<Rightarrow> rest | c # cs \<Rightarrow> if c = CHR ''-'' then cs else rest)
      in length two = 2 \<and> list_all is_digit two \<and> length seven = 7 \<and> list_all is_digit seven)"

text \<open>
  The five rules of password strength in their fixed order, each with the reason reported
  when it is not met.
\<close>

definition password_rules :: "((string \<Rightarrow> bool) \<times> string) list" where
  "password_rules =
     [(\<lambda>p. length p \<ge> 8, ''Password must be at least 8 characters long''),
      (\<lambda>p. \<exists>c \<in> set p. is_lower c, ''Password must contain at least one lowercase letter''),
      (\<lambda>p. \<exists>c \<in> set p. is_upper c, ''Password must contain at least one uppercase letter''),
      (\<lambda>p. \<exists>c \<in> set p. is_digit c, ''Password must contain at least one number''),
      (\<lambda>p. \<exists>c \<in> set p. is_special c,
         ''Password should contain at least one special character'')]"

definition satisfied_rules :: "string \<Rightarrow> ((string \<Rightarrow> bool) \<times> string) list" where
  "satisfied_rules p = filter (\<lambda>rule. fst rule p) password_rules"

definition failed_rules :: "string \<Rightarrow> ((string \<Rightarrow> bool) \<times> string) list" where
  "failed_rules p = filter (\<lambda>rule. \<not> fst rule p) password_rules"

text \<open>
  The headers a caller supplies, and the token \<open>request\<close> attaches: none for a call
  without a method or with the method \<open>GET\<close>, else the non-empty token of the page, if
  it has one.
\<close>

definition caller_headers :: "options \<Rightarrow> headers" where
  "caller_headers opts = (case opt_headers opts of None \<Rightarrow> Map.empty | Some h \<Rightarrow> h)"

definition attached_token :: "browser \<Rightarrow> options \<Rightarrow> string option" where
  "attached_token env opts =
     (case opt_method opts of
        None \<Rightarrow> None
      | Some m \<Rightarrow>
          if m = [] \<or> m = ''GET'' then None
          else (case getCSRFToken env of
                  Inr (Some t) \<Rightarrow> if t = [] then None else Some t
                | _ \<Rightarrow> None))"


section \<open>Concrete pages, responses and forms\<close>

text \<open>
  A browser showing a page with the given token element and cookies, whose \<open>fetch\<close>
  settles to the given outcome for every request.
\<close>

definition page_with :: "string option option \<Rightarrow> string \<Rightarrow> thrown + response \<Rightarrow> browser" where
  "page_with meta cookies fetched =
     \<lparr>meta_csrf = meta, cookie = cookies, decodeURIComponent = Inr,
      fetch = (\<lambda>url cfg. fetched),
      null_property_message = ''Cannot read properties of null'',
      undefined_property_message = ''Cannot read properties of undefined'',
      not_primitive_message = ''Cannot convert object to primitive value''\<rparr>"

definition json_response :: "nat \<Rightarrow> string \<Rightarrow> jsval \<Rightarrow> response" where
  \<comment> \<open>a response declared as JSON whose body decodes to the given value\<close>
  "json_response code reason v =
     \<lparr>status_code = code, statusText = reason,
      resp_headers = [''content-type'' \<mapsto> ''application/json''],
      json_body = Inr v, text_body = Inr []\<rparr>"

definition post_with_own_token :: options where
  \<comment> \<open>a \<open>POST\<close> whose caller supplies its own \<open>X-CSRF-Token\<close>\<close>
  "post_with_own_token =
     \<lparr>opt_method = Some ''POST'', opt_headers = Some [''X-CSRF-Token'' \<mapsto> ''mine''],
      opt_body = None, opt_credentials = None\<rparr>"

definition plain_get :: options where
  "plain_get =
     \<lparr>opt_method = Some ''GET'', opt_headers = None, opt_body = None,
      opt_credentials = None\<rparr>"

definition post_text_plain :: options where
  \<comment> \<open>a \<open>POST\<close> whose caller sets its own content type\<close>
  "post_text_plain =
     \<lparr>opt_method = Some ''POST'', opt_headers = Some [''Content-Type'' \<mapsto> ''text/plain''],
      opt_body = Some (JSONText ''hello''), opt_credentials = None\<rparr>"

definition proto_field :: field where
  \<comment> \<open>\<open><input name="__proto__" required>\<close>\<close>
  "proto_field =
     \<lparr>name = ''__proto__'', field_type = ''text'', required = True,
      minLength = Some (- 1), maxLength = Some (- 1)\<rparr>"

definition email_field :: field where
  \<comment> \<open>\<open><input type="email" name="email" required>\<close>\<close>
  "email_field =
     \<lparr>name = ''email'', field_type = ''email'', required = True,
      minLength = Some (- 1), maxLength = Some (- 1)\<rparr>"

definition password_field :: field where
  \<comment> \<open>\<open><input type="password" name="password" required minlength="8">\<close>\<close>
  "password_field =
     \<lparr>name = ''password'', field_type = ''password'', required = True,
      minLength = Some 8, maxLength = Some (- 1)\<rparr>"

definition login_form :: form where
  \<comment> \<open>a form submitted with its email left empty\<close>
  "login_form =
     \<lparr>form_fields = [email_field, password_field],
      formData = [(''email'', []), (''password'', ''Abcd123!'')],
      submit_button = True\<rparr>"

definition proto_form :: form where
  \<comment> \<open>a form submitted with its required field \<open>__proto__\<close> left empty\<close>
  "proto_form =
     \<lparr>form_fields = [proto_field, email_field],
      formData = [(''__proto__'', []), (''email'', ''ann@example.org'')],
      submit_button = True\<rparr>"

section \<open>Properties of the validators and formatters\<close>

lemma filter_digits_id: "list_all is_digit xs \<Longrightarrow> filter is_digit xs = xs"
  by (induction xs) auto

lemma strip_all_digits: "list_all is_digit (strip_non_digits s)"
  by (simp add: strip_non_digits_def list_all_iff)

lemma strip_insert:
  assumes "list_all is_digit c" and "\<not> is_digit x"
  shows "strip_non_digits (take n c @ x # drop n c) = c"
proof -
  have "list_all is_digit (take n c)" "list_all is_digit (drop n c)"
    using assms(1) by (auto simp: list_all_iff dest: in_set_takeD in_set_dropD)
  then have "filter is_digit (take n c) = take n c" "filter is_digit (drop n c) = drop n c"
    by (simp_all add: filter_digits_id)
  then show ?thesis using assms(2) by (simp add: strip_non_digits_def)
qed

lemma upt_one: "[n ..< Suc (min n m)] = (if n \<le> m then [n] else [])"
  by (simp add: min_def)

lemma rx_test_exact:
  "rx_test ((cls, n, Some n) # items) s =
     (n \<le> length s \<and> list_all cls (take n s) \<and> rx_test items (drop n s))"
  by (simp add: upt_one)

lemma rx_test_optional:
  "rx_test ((cls, 0, Some (Suc 0)) # items) s =
     (rx_test items s \<or> (case s of [] \<Rightarrow> False | c # cs \<Rightarrow> cls c \<and> rx_test items cs))"
  by (cases s) (auto simp: upt_rec [of 0] upt_rec [of "Suc 0"])

lemma whole_take:
  "(n \<le> length xs \<and> list_all P (take n xs) \<and> drop n xs = []) =
     (length xs = n \<and> list_all P xs)"
  by auto

text \<open>The regular expression of \<open>validateTIN\<close> accepts exactly the pattern in words.\<close>

lemma tinRegex_pattern: "rx_test tinRegex s = tin_pattern s"
proof -
  have nd: "\<not> is_digit CHR ''-''" by (simp add: is_digit_def)
  have unfold: "rx_test tinRegex s =
      (2 \<le> length s \<and> list_all is_digit (take 2 s) \<and>
        ((length (drop 2 s) = 7 \<and> list_all is_digit (drop 2 s)) \<or>
         (case drop 2 s of [] \<Rightarrow> False
          | c # cs \<Rightarrow> c = CHR ''-'' \<and> length cs = 7 \<and> list_all is_digit cs)))"
    by (simp only: tinRegex_def One_nat_def rx_test_optional rx_test_exact rx_test.simps(1)
        whole_take)
  show ?thesis
  proof (cases "drop 2 s")
    case Nil
    then show ?thesis unfolding unfold by (simp add: tin_pattern_def)
  next
    case (Cons c cs)
    then show ?thesis unfolding unfold using nd
      by (cases "c = CHR ''-''") (auto simp: tin_pattern_def Let_def)
  qed
qed

text \<open>
  C6. For every non-empty string, \<open>validateTIN\<close> accepts it iff stripping the non-digits
  leaves exactly 9 digits and the string has the exact pattern "two digits, an optional
  single dash, seven digits"; it accepts \<open>12-3456789\<close> and rejects \<open>123-456-789\<close>.
\<close>

theorem validateTIN_exact_pattern:
  "(s \<noteq> [] \<longrightarrow>
      isValid (validateTIN s) = (length (strip_non_digits s) = 9 \<and> tin_pattern s))
   \<and> isValid (validateTIN ''12-3456789'')
   \<and> \<not> isValid (validateTIN ''123-456-789'')"
proof -
  have "isValid (validateTIN ''12-3456789'')" "\<not> isValid (validateTIN ''123-456-789'')"
    by code_simp+
  then show ?thesis
    by (simp add: validateTIN_def Let_def tinRegex_pattern)
qed

theorem validateTIN_exact_pattern_witness:
  "''123456789'' \<noteq> [] \<and> length (strip_non_digits ''123456789'') = 9
   \<and> tin_pattern ''123456789'' \<and> isValid (validateTIN ''123456789'')"
proof -
  have "length (strip_non_digits ''123456789'') = 9" "tin_pattern ''123456789''"
    by code_simp+
  then show ?thesis
    using validateTIN_exact_pattern [of "''123456789''"] by simp
qed

text \<open>
  C7. For every non-empty string, \<open>validateRoutingNumber\<close> accepts it iff stripping the
  non-digits leaves exactly 9 digits, whatever the digits are: no checksum is applied,
  and \<open>111111111\<close> is accepted.
\<close>

theorem validateRoutingNumber_nine_digits:
  "(s \<noteq> [] \<longrightarrow> isValid (validateRoutingNumber s) = (length (strip_non_digits s) = 9))
   \<and> isValid (validateRoutingNumber ''111111111'')"
proof -
  have "isValid (validateRoutingNumber ''111111111'')"
    by code_simp
  then show ?thesis
    by (simp add: validateRoutingNumber_def Let_def)
qed

theorem validateRoutingNumber_nine_digits_witness:
  "''021-000-021'' \<noteq> [] \<and> length (strip_non_digits ''021-000-021'') = 9
   \<and> isValid (validateRoutingNumber ''021-000-021'')"
proof -
  have "length (strip_non_digits ''021-000-021'') = 9"
    by code_simp
  then show ?thesis
    using validateRoutingNumber_nine_digits [of "''021-000-021''"] by simp
qed

lemma score_pw_check: "score (pw_check b m r) = score r + (if b then 0 else 1)"
  by (simp add: pw_check_def)

lemma feedback_pw_check: "feedback (pw_check b m r) = feedback r @ (if b then [m] else [])"
  by (simp add: pw_check_def)

lemma validatePassword_score: "score (validatePassword p) = length (satisfied_rules p)"
  by (simp add: validatePassword_def Let_def satisfied_rules_def password_rules_def
      score_pw_check rx_search_def list_ex_iff not_less)

lemma validatePassword_feedback: "feedback (validatePassword p) = map snd (failed_rules p)"
  by (simp add: validatePassword_def Let_def failed_rules_def password_rules_def
      feedback_pw_check rx_search_def list_ex_iff not_less not_le)

lemma validatePassword_total:
  "length (feedback (validatePassword p)) + score (validatePassword p) = 5"
  by (simp add: validatePassword_def Let_def feedback_pw_check score_pw_check)

text \<open>
  C8. For every password, the score is the number of satisfied rules among the five, so
  at most 5; the password is valid iff the score is at least 4; the feedback is the
  reasons of the failed rules, one each, in the order of the rules, so its length is
  5 minus the score. \<open>abc\<close> is invalid with at least 4 reasons; \<open>Abcd123!\<close> is valid
  with score 5.
\<close>

theorem validatePassword_score_feedback:
  "score (validatePassword p) = length (satisfied_rules p)
   \<and> score (validatePassword p) \<le> 5
   \<and> isValid (validatePassword p) = (score (validatePassword p) \<ge> 4)
   \<and> feedback (validatePassword p) = map snd (failed_rules p)
   \<and> length (feedback (validatePassword p)) = 5 - score (validatePassword p)
   \<and> \<not> isValid (validatePassword ''abc'')
   \<and> length (feedback (validatePassword ''abc'')) \<ge> 4
   \<and> isValid (validatePassword ''Abcd123!'')
   \<and> score (validatePassword ''Abcd123!'') = 5"
proof -
  have valid: "isValid (validatePassword p) = (score (validatePassword p) \<ge> 4)"
    by (simp add: validatePassword_def Let_def)
  have examples:
    "\<not> isValid (validatePassword ''abc'')"
    "length (feedback (validatePassword ''abc'')) \<ge> 4"
    "isValid (validatePassword ''Abcd123!'')"
    "score (validatePassword ''Abcd123!'') = 5"
    by code_simp+
  show ?thesis
    using validatePassword_total [of p] valid examples
    by (simp add: validatePassword_score validatePassword_feedback)
qed

theorem validatePassword_score_feedback_witness:
  "score (validatePassword ''abcdefgh'') = 2
   \<and> length (satisfied_rules ''abcdefgh'') = 2
   \<and> \<not> isValid (validatePassword ''abcdefgh'')
   \<and> feedback (validatePassword ''abcdefgh'') =
       [''Password must contain at least one uppercase letter'',
        ''Password must contain at least one number'',
        ''Password should contain at least one special character'']"
proof -
  have "length (satisfied_rules ''abcdefgh'') = 2"
    "map snd (failed_rules ''abcdefgh'') =
       [''Password must contain at least one uppercase letter'',
        ''Password must contain at least one number'',
        ''Password should contain at least one special character'']"
    by code_simp+
  then show ?thesis
    using validatePassword_score_feedback [of "''abcdefgh''"] by simp
qed

lemma three_parts: "take i xs @ drop i (take (i + j) xs) @ drop (i + j) xs = xs"
proof -
  have "drop i (take (i + j) xs) = take j (drop i xs)"
    by (simp add: drop_take)
  moreover have "take j (drop i xs) @ drop j (drop i xs) = drop i xs"
    by (rule append_take_drop_id)
  ultimately show ?thesis
    by (simp add: add.commute)
qed

text \<open>
  C10. The formatters are idempotent: formatting the output of \<open>formatTIN\<close> or of
  \<open>formatRoutingNumber\<close> again changes nothing, whether or not the input held exactly 9
  digits.
\<close>

theorem formatters_idempotent:
  "formatTIN (formatTIN s) = formatTIN s
   \<and> formatRoutingNumber (formatRoutingNumber s) = formatRoutingNumber s"
proof (cases "length (strip_non_digits s) = 9")
  case True
  have dash: "\<not> is_digit CHR ''-''" and space: "\<not> is_digit CHR '' ''"
    by (simp_all add: is_digit_def)
  let ?c = "strip_non_digits s"
  have tin: "formatTIN s = take 2 ?c @ CHR ''-'' # drop 2 ?c"
    using True by (simp add: formatTIN_def Let_def slice_def slice_from_def)
  have "strip_non_digits (formatTIN s) = ?c"
    unfolding tin by (rule strip_insert [OF strip_all_digits dash])
  then have t: "formatTIN (formatTIN s) = formatTIN s"
    using True by (simp add: formatTIN_def Let_def)
  have digits: "filter is_digit ?c = ?c"
    by (rule filter_digits_id [OF strip_all_digits])
  have parts: "take 3 ?c @ drop 3 (take 6 ?c) @ drop 6 ?c = ?c"
    using three_parts [of 3 ?c 3] by simp
  have rn: "formatRoutingNumber s =
      take 3 ?c @ CHR '' '' # drop 3 (take 6 ?c) @ CHR '' '' # drop 6 ?c"
    using True by (simp add: formatRoutingNumber_def Let_def slice_def slice_from_def)
  have "list_all is_digit (take 3 ?c)" "list_all is_digit (drop 3 (take 6 ?c))"
    "list_all is_digit (drop 6 ?c)"
    using strip_all_digits [of s]
    by (auto simp: list_all_iff dest: in_set_takeD in_set_dropD)
  then have "strip_non_digits (formatRoutingNumber s) =
      take 3 ?c @ drop 3 (take 6 ?c) @ drop 6 ?c"
    unfolding rn using space by (simp add: strip_non_digits_def filter_digits_id)
  then have "strip_non_digits (formatRoutingNumber s) = ?c"
    using parts by simp
  then have r: "formatRoutingNumber (formatRoutingNumber s) = formatRoutingNumber s"
    using True by (simp add: formatRoutingNumber_def Let_def)
  from t r show ?thesis by simp
next
  case False
  then show ?thesis by (simp add: formatTIN_def formatRoutingNumber_def Let_def)
qed

theorem formatters_idempotent_witness:
  "formatTIN (formatTIN ''123456789'') = ''12-3456789''
   \<and> formatRoutingNumber (formatRoutingNumber ''123456789'') = ''123 456 789''"
proof -
  have "formatTIN ''123456789'' = ''12-3456789''"
    "formatRoutingNumber ''123456789'' = ''123 456 789''"
    by code_simp+
  then show ?thesis
    using formatters_idempotent [of "''123456789''"] by simp
qed

section \<open>Properties of the error taxonomy\<close>

text \<open>
  C5. For every integer status of an \<open>APIError\<close>: \<open>isAuthError\<close> holds iff the status
  is 401 or 403, \<open>isValidationError\<close> iff it is 400 or 422, \<open>isServerError\<close> iff it is
  at least 500; no two of them hold together; each depends on the status only; and for a
  status of 401 or 403, \<open>isAuthError\<close> holds and the other two do not.
\<close>

theorem APIError_categories:
  "isAuthError e = (status e \<in> {401, 403})
   \<and> isValidationError e = (status e \<in> {400, 422})
   \<and> isServerError e = (status e \<ge> 500)
   \<and> \<not> (isAuthError e \<and> isValidationError e)
   \<and> \<not> (isAuthError e \<and> isServerError e)
   \<and> \<not> (isValidationError e \<and> isServerError e)
   \<and> (status e' = status e \<longrightarrow>
        isAuthError e' = isAuthError e \<and> isValidationError e' = isValidationError e
        \<and> isServerError e' = isServerError e)
   \<and> (status e \<in> {401, 403} \<longrightarrow>
        isAuthError e \<and> \<not> isValidationError e \<and> \<not> isServerError e)"
  by (auto simp: isAuthError_def isValidationError_def isServerError_def)

theorem APIError_categories_witness:
  "status \<lparr>message = ''again'', status = 403, data = JStr ''no''\<rparr>
     = status \<lparr>message = ''Forbidden'', status = 403, data = JNull\<rparr>
   \<and> status \<lparr>message = ''Forbidden'', status = 403, data = JNull\<rparr> \<in> {401, 403}
   \<and> isAuthError \<lparr>message = ''again'', status = 403, data = JStr ''no''\<rparr>
   \<and> isAuthError \<lparr>message = ''Forbidden'', status = 403, data = JNull\<rparr>
   \<and> \<not> isValidationError \<lparr>message = ''Forbidden'', status = 403, data = JNull\<rparr>
   \<and> \<not> isServerError \<lparr>message = ''Forbidden'', status = 403, data = JNull\<rparr>"
  using APIError_categories [of "\<lparr>message = ''Forbidden'', status = 403, data = JNull\<rparr>"
      "\<lparr>message = ''again'', status = 403, data = JStr ''no''\<rparr>"]
  by simp

section \<open>Properties of the request client\<close>

text \<open>
  C1. The claim is that no request of \<open>upload\<close> carries the client's default
  \<open>Content-Type\<close>. On the code every request that \<open>upload\<close> issues through a client
  built by the constructor carries it: \<open>upload\<close> deletes the header from its own copy
  of the defaults, and \<open>request\<close> merges the defaults under that copy again.
\<close>

theorem upload_sends_default_content_type:
  assumes "request_config env (new_FinBotAPI base) endpoint
             (upload_options (new_FinBotAPI base) fd) = Inr (url, cfg)"
  shows "cfg_headers cfg ''Content-Type'' = Some ''application/json''"
  using assms
  by (auto simp: request_config_def upload_options_def new_FinBotAPI_def Let_def map_add_def
      split: sum.splits option.splits if_splits)

theorem upload_sends_default_content_type_witness:
  "request_config (page_with None [] (Inl (ThrownError ''offline''))) (new_FinBotAPI []) ''/upload''
      (upload_options (new_FinBotAPI []) [(''file'', ''report'')])
     = Inr (''/upload'',
         \<lparr>cfg_credentials = ''same-origin'', cfg_method = Some ''POST'',
          cfg_body = Some (FormData [(''file'', ''report'')]),
          cfg_headers = [''Content-Type'' \<mapsto> ''application/json'']\<rparr>)
   \<and> [''Content-Type'' \<mapsto> ''application/json''] ''Content-Type''
       = Some ''application/json''"
proof -
  have sent: "request_config (page_with None [] (Inl (ThrownError ''offline''))) (new_FinBotAPI []) ''/upload''
      (upload_options (new_FinBotAPI []) [(''file'', ''report'')])
     = Inr (''/upload'',
         \<lparr>cfg_credentials = ''same-origin'', cfg_method = Some ''POST'',
          cfg_body = Some (FormData [(''file'', ''report'')]),
          cfg_headers = [''Content-Type'' \<mapsto> ''application/json'']\<rparr>)"
    by (simp add: request_config_def upload_options_def new_FinBotAPI_def Let_def
        page_with_def getCSRFToken_def trim_def)
  show ?thesis
    using sent upload_sends_default_content_type [OF sent] by simp
qed

lemma request_config_headers:
  assumes "request_config env api endpoint opts = Inr (url, cfg)"
  shows "cfg_headers cfg =
     (case attached_token env opts of
        None \<Rightarrow> defaultHeaders api ++ caller_headers opts
      | Some t \<Rightarrow> (defaultHeaders api ++ caller_headers opts)(''X-CSRF-Token'' \<mapsto> t))"
  using assms
  by (auto simp: request_config_def attached_token_def caller_headers_def Let_def
      split: sum.splits option.splits if_splits)

text \<open>
  C2. For every call of \<open>request\<close> that reaches \<open>fetch\<close>, the headers sent are the
  client defaults overridden by the caller's headers, and then, when a token is attached
  (a method other than \<open>GET\<close> and a non-empty token on the page), \<open>X-CSRF-Token\<close> set to
  that token. So the caller's value is the one sent for every header name other than
  \<open>X-CSRF-Token\<close>, and for \<open>X-CSRF-Token\<close> too when no token is attached; a name the
  caller leaves out keeps the default under the same condition.
\<close>

theorem request_header_merge:
  assumes "request_config env api endpoint opts = Inr (url, cfg)"
  shows "cfg_headers cfg =
     (case attached_token env opts of
        None \<Rightarrow> defaultHeaders api ++ caller_headers opts
      | Some t \<Rightarrow> (defaultHeaders api ++ caller_headers opts)(''X-CSRF-Token'' \<mapsto> t))
   \<and> (caller_headers opts n = Some v
        \<and> (n \<noteq> ''X-CSRF-Token'' \<or> attached_token env opts = None)
        \<longrightarrow> cfg_headers cfg n = Some v)
   \<and> (caller_headers opts n = None
        \<and> (n \<noteq> ''X-CSRF-Token'' \<or> attached_token env opts = None)
        \<longrightarrow> cfg_headers cfg n = defaultHeaders api n)"
  unfolding request_config_headers [OF assms]
  by (auto simp: map_add_def split: option.splits)

text \<open>
  On a page with a token, a \<open>POST\<close> whose caller supplies its own \<open>X-CSRF-Token\<close> is
  sent with the token of the page: on this header the caller does not win.
\<close>

theorem caller_csrf_token_overridden:
  "request_config (page_with (Some (Some ''page-token'')) [] (Inl (ThrownError ''offline'')))
      (new_FinBotAPI []) ''/pay'' post_with_own_token
     = Inr (''/pay'',
         \<lparr>cfg_credentials = ''same-origin'', cfg_method = Some ''POST'', cfg_body = None,
          cfg_headers = [''Content-Type'' \<mapsto> ''application/json'',
                         ''X-CSRF-Token'' \<mapsto> ''page-token'']\<rparr>)
   \<and> caller_headers post_with_own_token ''X-CSRF-Token'' = Some ''mine''"
  by (simp add: request_config_def post_with_own_token_def new_FinBotAPI_def Let_def
      page_with_def getCSRFToken_def caller_headers_def)

theorem request_header_merge_witness:
  "request_config (page_with (Some (Some ''page-token'')) [] (Inl (ThrownError ''offline'')))
      (new_FinBotAPI []) ''/note'' post_text_plain
     = Inr (''/note'',
         \<lparr>cfg_credentials = ''same-origin'', cfg_method = Some ''POST'',
          cfg_body = Some (JSONText ''hello''),
          cfg_headers = [''Content-Type'' \<mapsto> ''text/plain'',
                         ''X-CSRF-Token'' \<mapsto> ''page-token'']\<rparr>)
   \<and> caller_headers post_text_plain ''Content-Type'' = Some ''text/plain''
   \<and> ''Content-Type'' \<noteq> ''X-CSRF-Token''
   \<and> cfg_headers
         \<lparr>cfg_credentials = ''same-origin'', cfg_method = Some ''POST'',
          cfg_body = Some (JSONText ''hello''),
          cfg_headers = [''Content-Type'' \<mapsto> ''text/plain'',
                         ''X-CSRF-Token'' \<mapsto> ''page-token'']\<rparr>
         ''Content-Type'' = Some ''text/plain''"
proof -
  have sent: "request_config (page_with (Some (Some ''page-token'')) [] (Inl (ThrownError ''offline'')))
      (new_FinBotAPI []) ''/note'' post_text_plain
     = Inr (''/note'',
         \<lparr>cfg_credentials = ''same-origin'', cfg_method = Some ''POST'',
          cfg_body = Some (JSONText ''hello''),
          cfg_headers = [''Content-Type'' \<mapsto> ''text/plain'',
                         ''X-CSRF-Token'' \<mapsto> ''page-token'']\<rparr>)"
    by (simp add: request_config_def post_text_plain_def new_FinBotAPI_def Let_def
        page_with_def getCSRFToken_def)
  have caller: "caller_headers post_text_plain ''Content-Type'' = Some ''text/plain''"
    by (simp add: caller_headers_def post_text_plain_def)
  have other: "''Content-Type'' \<noteq> ''X-CSRF-Token''"
    by simp
  show ?thesis
    using sent caller other
      request_header_merge [OF sent, of "''Content-Type''" "''text/plain''"]
    by blast
qed

lemma request_config_plain_get:
  "request_config (page_with meta cookies fetched) (new_FinBotAPI []) endpoint plain_get
     = Inr (endpoint,
         \<lparr>cfg_credentials = ''same-origin'', cfg_method = Some ''GET'', cfg_body = None,
          cfg_headers = [''Content-Type'' \<mapsto> ''application/json'']\<rparr>)"
  by (simp add: request_config_def plain_get_def new_FinBotAPI_def Let_def)

lemma decode_json_response: "decode_body (json_response code reason v) = Inr v"
  by (simp add: decode_body_def json_response_def)

lemma show_nat_400: "show_nat 400 = ''400''"
  by code_simp

text \<open>
  C3. For every response with a non-success status whose decoded body is not \<open>null\<close>
  and whose \<open>message\<close> property, when truthy, has a string conversion, \<open>request\<close>
  throws an \<open>APIError\<close> whose status is the status of the response and whose data is
  the decoded body; its message is the generic \<open>HTTP status: statusText\<close> when the body
  has no \<open>message\<close> property or a falsy one (the empty string, \<open>null\<close>, \<open>false\<close>,
  zero), and the string conversion of the property when that is truthy: the property
  itself when it is a non-empty string.
\<close>

theorem request_failure_of_response:
  assumes "request_config env api endpoint opts = Inr (url, cfg)"
    and "fetch env url cfg = Inr r"
    and "\<not> ok r"
    and "decode_body r = Inr d"
    and "d \<noteq> JNull"
  shows "(\<not> truthy (property d ''message'') \<longrightarrow>
            request env api endpoint opts =
              Inl (ThrownAPIError
                \<lparr>message = http_message r, status = int (status_code r), data = d\<rparr>))
       \<and> (truthy (property d ''message'')
            \<and> to_string (the (property d ''message'')) = Some s \<longrightarrow>
            request env api endpoint opts =
              Inl (ThrownAPIError
                \<lparr>message = s, status = int (status_code r), data = d\<rparr>))
       \<and> (property d ''message'' = Some (JStr s) \<and> s \<noteq> [] \<longrightarrow>
            request env api endpoint opts =
              Inl (ThrownAPIError
                \<lparr>message = s, status = int (status_code r), data = d\<rparr>))"
  using assms
  by (simp add: request_def request_try_def request_catch_def)

text \<open>
  A body whose \<open>message\<close> property is present and empty: the message of the error is the
  generic one, not the property.
\<close>

theorem empty_message_field_replaced:
  "request (page_with None []
        (Inr (json_response 400 ''Bad Request'' (JObj [(''message'', JStr [])]))))
      (new_FinBotAPI []) ''/pay'' plain_get
     = Inl (ThrownAPIError
         \<lparr>message = ''HTTP 400: Bad Request'', status = 400,
          data = JObj [(''message'', JStr [])]\<rparr>)
   \<and> property (JObj [(''message'', JStr [])]) ''message'' = Some (JStr [])"
  unfolding request_def request_config_plain_get
  by (simp add: page_with_def request_try_def decode_body_def ok_def json_response_def
      http_message_def show_nat_400 request_catch_def)

text \<open>
  A body that decodes to \<open>null\<close>: reading its \<open>message\<close> throws inside the \<open>try\<close>,
  and the error the caller sees has the status 0, not the status of the response.
\<close>

lemma null_body_loses_status:
  "request (page_with None []
        (Inr (json_response 500 ''Internal Server Error'' JNull)))
      (new_FinBotAPI []) ''/pay'' plain_get
     = Inl (ThrownAPIError
         \<lparr>message = ''Cannot read properties of null'', status = 0, data = JNull\<rparr>)"
  unfolding request_def request_config_plain_get
  by (simp add: page_with_def request_try_def decode_body_def ok_def json_response_def
      request_catch_def)

text \<open>
  A body whose \<open>message\<close> property is an object with an own \<open>toString\<close>: the
  constructor of the error throws inside the \<open>try\<close>, with the same effect.
\<close>

lemma unconvertible_message_loses_status:
  "request (page_with None []
        (Inr (json_response 400 ''Bad Request''
               (JObj [(''message'', JObj [(''toString'', JNum ''1'')])]))))
      (new_FinBotAPI []) ''/pay'' plain_get
     = Inl (ThrownAPIError
         \<lparr>message = ''Cannot convert object to primitive value'', status = 0,
          data = JNull\<rparr>)"
  unfolding request_def request_config_plain_get
  by (simp add: page_with_def request_try_def decode_body_def ok_def json_response_def
      request_catch_def)

theorem request_failure_of_response_witness:
  "request_config
      (page_with None []
        (Inr (json_response 400 ''Bad Request'' (JObj [(''message'', JStr ''No such vendor'')]))))
      (new_FinBotAPI []) ''/pay'' plain_get
     = Inr (''/pay'',
         \<lparr>cfg_credentials = ''same-origin'', cfg_method = Some ''GET'', cfg_body = None,
          cfg_headers = [''Content-Type'' \<mapsto> ''application/json'']\<rparr>)
   \<and> \<not> ok (json_response 400 ''Bad Request'' (JObj [(''message'', JStr ''No such vendor'')]))
   \<and> decode_body (json_response 400 ''Bad Request'' (JObj [(''message'', JStr ''No such vendor'')]))
       = Inr (JObj [(''message'', JStr ''No such vendor'')])
   \<and> JObj [(''message'', JStr ''No such vendor'')] \<noteq> JNull
   \<and> truthy (property (JObj [(''message'', JStr ''No such vendor'')]) ''message'')
   \<and> to_string (the (property (JObj [(''message'', JStr ''No such vendor'')]) ''message''))
       = Some ''No such vendor''
   \<and> request
        (page_with None []
          (Inr (json_response 400 ''Bad Request'' (JObj [(''message'', JStr ''No such vendor'')]))))
        (new_FinBotAPI []) ''/pay'' plain_get
       = Inl (ThrownAPIError
           \<lparr>message = ''No such vendor'', status = 400,
            data = JObj [(''message'', JStr ''No such vendor'')]\<rparr>)"
proof -
  let ?d = "JObj [(''message'', JStr ''No such vendor'')]"
  let ?r = "json_response 400 ''Bad Request'' ?d"
  let ?env = "page_with None [] (Inr ?r)"
  let ?cfg = "\<lparr>cfg_credentials = ''same-origin'', cfg_method = Some ''GET'', cfg_body = None,
          cfg_headers = [''Content-Type'' \<mapsto> ''application/json'']\<rparr>"
  have sent: "request_config ?env (new_FinBotAPI []) ''/pay'' plain_get = Inr (''/pay'', ?cfg)"
    by (rule request_config_plain_get)
  have fetched: "fetch ?env ''/pay'' ?cfg = Inr ?r"
    by (simp add: page_with_def)
  have failed: "\<not> ok ?r"
    by (simp add: ok_def json_response_def)
  have decoded: "decode_body ?r = Inr ?d"
    by (rule decode_json_response)
  have not_null: "?d \<noteq> JNull"
    by simp
  have field: "truthy (property ?d ''message'')"
    "to_string (the (property ?d ''message'')) = Some ''No such vendor''"
    by simp_all
  have code: "int (status_code ?r) = 400"
    by (simp add: json_response_def)
  show ?thesis
    using sent failed decoded not_null field code
      request_failure_of_response [OF sent fetched failed decoded not_null, of "''No such vendor''"]
    by simp
qed



text \<open>
  A rejection of \<open>fetch\<close> with the value \<open>null\<close>, the abort reason of a signal handed
  through the options: reading its message throws inside the \<open>catch\<close> block, and a
  \<open>TypeError\<close> leaves \<open>request\<close> in place of an \<open>APIError\<close>.
\<close>

lemma null_rejection_escapes:
  "request (page_with None [] (Inl (ThrownValue (Some JNull)))) (new_FinBotAPI []) ''/pay''
      plain_get
     = Inl (ThrownError ''Cannot read properties of null'')"
  unfolding request_def request_config_plain_get
  by (simp add: page_with_def request_try_def request_catch_def)


section \<open>Properties of form submission\<close>

lemma handleAuthSubmit_invalid_aborts:
  assumes "\<not> isValid (validateForm frm)"
  shows "handleAuthSubmit submitForm frm
           = [PreventDefault, DisplayFormErrors (errors (validateForm frm))]
       \<and> SubmitForm \<notin> set (handleAuthSubmit submitForm frm)"
  using assms by (simp add: handleAuthSubmit_def Let_def)

lemma validateForm_one_invalid_field:
  assumes "form_fields frm = [f, g] \<or> form_fields frm = [g, f]"
    and "field_errors f (map_of (formData frm) (name f)) \<noteq> []"
    and "field_errors g (map_of (formData frm) (name g)) = []"
    and "name f \<noteq> ''__proto__''"
  shows "map fst (errors (validateForm frm)) = [name f]
       \<and> \<not> isValid (validateForm frm)"
  using assms
  by (auto simp: validateForm_def validate_field_def assign_def Let_def)

lemma proto_field_errors: "field_errors proto_field (Some []) = [''__proto__ is required'']"
  by (simp add: field_errors_def non_empty_def proto_field_def)

lemma example_email_valid: "isValidEmail ''ann@example.org''"
  by code_simp

lemma email_field_errors: "field_errors email_field (Some ''ann@example.org'') = []"
  by (simp add: field_errors_def non_empty_def email_field_def example_email_valid trim_def
      is_space_def)

text \<open>
  C9. The claim is that a form with one invalid required field and one valid field is
  reported with exactly one key in \<open>errors\<close> and never reaches the network. On the code
  a required field named \<open>__proto__\<close> that is left empty has its error computed and then
  lost: the assignment to \<open>errors\<close> adds no key, the form is reported valid, and the
  handler goes on to \<open>submitForm\<close>.
\<close>

theorem proto_field_error_lost:
  "field_errors proto_field (map_of (formData proto_form) (name proto_field))
     = [''__proto__ is required'']
   \<and> field_errors email_field (map_of (formData proto_form) (name email_field)) = []
   \<and> validateForm proto_form = \<lparr>isValid = True, errors = []\<rparr>
   \<and> handleAuthSubmit submitForm proto_form
       = PreventDefault # ShowLoading # SubmitForm # after_submit (submitForm proto_form)"
proof -
  have names: "name proto_field = ''__proto__''" "name email_field = ''email''"
    by (simp_all add: proto_field_def email_field_def)
  have v: "validateForm proto_form = \<lparr>isValid = True, errors = []\<rparr>"
    by (simp add: validateForm_def validate_field_def proto_form_def names
        proto_field_errors email_field_errors assign_def)
  show ?thesis
    unfolding handleAuthSubmit_def v
    by (simp add: proto_form_def names proto_field_errors email_field_errors)
qed

theorem proto_field_error_lost_witness:
  "validateForm proto_form = \<lparr>isValid = True, errors = []\<rparr>
   \<and> handleAuthSubmit
        (\<lambda>frm. Inl (ThrownAPIError
           \<lparr>message = ''Network error occurred'', status = 0, data = JNull\<rparr>))
        proto_form
       = [PreventDefault, ShowLoading, SubmitForm,
          HandleAPIError \<lparr>message = ''Network error occurred'', status = 0, data = JNull\<rparr>,
          HideLoading]"
  using proto_field_error_lost
    [of "\<lambda>frm. Inl (ThrownAPIError
           \<lparr>message = ''Network error occurred'', status = 0, data = JNull\<rparr>)"]
  by (simp add: after_submit_def isValidationError_def)

end
